theory Spec2Isabelle
  imports Main "HOL-Library.Word"
begin

unbundle bit_operations_syntax

section \<open>Thread.h: the data model\<close>

text \<open>
  The header \<^verbatim>\<open>src/BlackBone/Process/Threads/Thread.h\<close> declares the class
  \<^verbatim>\<open>Thread\<close> and defines, inline, its observers \<^verbatim>\<open>id\<close>, \<^verbatim>\<open>handle\<close> and
  \<^verbatim>\<open>valid\<close>, the comparison \<^verbatim>\<open>operator ==\<close>, the copy assignment
  \<^verbatim>\<open>operator =\<close> and the private \<^verbatim>\<open>ReleaseHandle\<close>. These are embedded from the
  source. The bodies of the other member functions live in a translation unit that is not
  part of the sources at hand; the second half of this theory models them from the
  specification.
\<close>

type_synonym DWORD = "32 word"
type_synonym HANDLE = "64 word"
type_synonym ptr_t = "64 word"
type_synonym ProcessCore_ptr = "64 word"

text \<open>The null handle, \<^verbatim>\<open>NULL\<close>.\<close>

definition NULL :: HANDLE where
  "NULL = 0"

text \<open>
  \<^verbatim>\<open>enum HWBPType { hwbp_access = 3, hwbp_write = 1, hwbp_execute = 0 }\<close> and
  \<^verbatim>\<open>enum HWBPLength { hwbp_1 = 0, hwbp_2 = 1, hwbp_4 = 3, hwbp_8 = 2 }\<close>,
  each with the integer value the source gives the enumerator.
\<close>

datatype HWBPType = hwbp_access | hwbp_write | hwbp_execute

fun HWBPType_val :: "HWBPType \<Rightarrow> int" where
  "HWBPType_val hwbp_access = 3"
| "HWBPType_val hwbp_write = 1"
| "HWBPType_val hwbp_execute = 0"

datatype HWBPLength = hwbp_1 | hwbp_2 | hwbp_4 | hwbp_8

fun HWBPLength_val :: "HWBPLength \<Rightarrow> int" where
  "HWBPLength_val hwbp_1 = 0"
| "HWBPLength_val hwbp_2 = 1"
| "HWBPLength_val hwbp_4 = 3"
| "HWBPLength_val hwbp_8 = 2"

text \<open>
  The number of bytes each length enumerator stands for (the comments of the enum:
  1 byte, 2 bytes, 4 bytes, 8 bytes).
\<close>

fun HWBPLength_bytes :: "HWBPLength \<Rightarrow> nat" where
  "HWBPLength_bytes hwbp_1 = 1"
| "HWBPLength_bytes hwbp_2 = 2"
| "HWBPLength_bytes hwbp_4 = 4"
| "HWBPLength_bytes hwbp_8 = 8"

text \<open>
  The three data members of \<^verbatim>\<open>Thread\<close>: \<^verbatim>\<open>_core\<close>, \<^verbatim>\<open>_id\<close> (initialised to 0)
  and the mutable \<^verbatim>\<open>_handle\<close> (initialised to \<^verbatim>\<open>NULL\<close>).
\<close>

record Thread =
  m_core :: ProcessCore_ptr
  m_id :: DWORD
  m_handle :: HANDLE

text \<open>
  \<^verbatim>\<open>operator =\<close> takes its source by reference and writes to it through
  \<^verbatim>\<open>ReleaseHandle\<close>, so the two objects may be one and the same. Objects are
  therefore kept in a store, addressed by their location; a reference is a location.
\<close>

type_synonym loc = nat
type_synonym store = "loc \<Rightarrow> Thread"

section \<open>Thread.h: the inline member functions\<close>

text \<open>\<^verbatim>\<open>DWORD id() const { return _id; }\<close>\<close>

definition Thread_id :: "store \<Rightarrow> loc \<Rightarrow> DWORD" where
  "Thread_id s this = m_id (s this)"

text \<open>\<^verbatim>\<open>HANDLE handle() const { return _handle; }\<close>\<close>

definition Thread_handle :: "store \<Rightarrow> loc \<Rightarrow> HANDLE" where
  "Thread_handle s this = m_handle (s this)"

text \<open>
  \<^verbatim>\<open>bool valid() const { return (_handle != NULL && ExitCode() == STILL_ACTIVE); }\<close>

  \<^verbatim>\<open>ExitCode\<close> is declared in the header and defined elsewhere, and the macro
  \<^verbatim>\<open>STILL_ACTIVE\<close> comes from the platform headers: both are parameters here.
  \<^verbatim>\<open>ExitCode\<close> is a const member function, so it is a function of the object (and of
  the operating system's state, which the parameter closes over). The \<^verbatim>\<open>&&\<close> is
  short-circuit: \<^verbatim>\<open>ExitCode\<close> is only consulted for a non-null handle.
\<close>

definition valid :: "(Thread \<Rightarrow> DWORD) \<Rightarrow> DWORD \<Rightarrow> store \<Rightarrow> loc \<Rightarrow> bool" where
  "valid ExitCode STILL_ACTIVE s this =
     (if m_handle (s this) \<noteq> NULL then ExitCode (s this) = STILL_ACTIVE else False)"

text \<open>\<^verbatim>\<open>bool operator ==(const Thread& other) { return (_id == other._id); }\<close>\<close>

definition operator_eq :: "store \<Rightarrow> loc \<Rightarrow> loc \<Rightarrow> bool" where
  "operator_eq s this other = (m_id (s this) = m_id (s other))"

text \<open>\<^verbatim>\<open>void ReleaseHandle() const { _handle = NULL; }\<close>\<close>

definition ReleaseHandle :: "loc \<Rightarrow> store \<Rightarrow> store" where
  "ReleaseHandle this s = s(this := (s this)\<lparr>m_handle := NULL\<rparr>)"

text \<open>
  The copy assignment, statement by statement; every read of \<^verbatim>\<open>other\<close> sees the
  store as the statements before it left it:
  \<^verbatim>\<open>
  Thread& operator =(const Thread& other)
  {
      _id = other._id;
      _core = other._core;
      _handle = other._handle;
      other.ReleaseHandle();
      return *this;
  }
  \<close>
\<close>

definition operator_assign :: "loc \<Rightarrow> loc \<Rightarrow> store \<Rightarrow> store" where
  "operator_assign this other s =
     (let s1 = s(this := (s this)\<lparr>m_id := m_id (s other)\<rparr>);
          s2 = s1(this := (s1 this)\<lparr>m_core := m_core (s1 other)\<rparr>);
          s3 = s2(this := (s2 this)\<lparr>m_handle := m_handle (s2 other)\<rparr>)
      in ReleaseHandle other s3)"

text \<open>Two objects with different ids and different live handles, used as a running example.\<close>

definition two_threads :: store where
  "two_threads = (\<lambda>_. \<lparr>m_core = 0, m_id = 0, m_handle = NULL\<rparr>)
     (0 := \<lparr>m_core = 16, m_id = 100, m_handle = 4\<rparr>,
      1 := \<lparr>m_core = 32, m_id = 200, m_handle = 8\<rparr>)"

section \<open>The operating-system boundary\<close>

text \<open>
  Modelled from the spec: the bodies of \<^verbatim>\<open>Suspend\<close>, \<^verbatim>\<open>Resume\<close>,
  \<^verbatim>\<open>GetContext\<close>, \<^verbatim>\<open>SetContext\<close>, \<^verbatim>\<open>AddHWBP\<close> and \<^verbatim>\<open>RemoveHWBP\<close> are
  only declared in the header, and the operating system they call is outside the
  repository. What follows is the specification's account of them (its sections on
  execution control, context access and the hardware breakpoint manager).

  The target thread, as the operating system holds it: its suspend count (the thread runs
  only at count zero); whether the handle lets the caller suspend and resume it (a live
  handle with the right, on a thread that has not exited); whether the get/set-context
  call goes through; the register state, an opaque blob; the four debug address
  registers and the debug control register; and the primitives called on it so far, in
  order.
\<close>

datatype os_call = SuspendThread | ResumeThread | GetThreadContext | SetThreadContext

record 'c os_thread =
  suspend_count :: nat
  suspend_access :: bool
  context_access :: bool
  registers :: 'c
  debug_address :: "nat \<Rightarrow> ptr_t"
  debug_control :: "64 word"
  calls :: "os_call list"

text \<open>
  Modelled from the spec: \<^verbatim>\<open>Suspend\<close> and \<^verbatim>\<open>Resume\<close> wrap the suspend-count
  primitive and return false on failure (handle invalid, insufficient rights, thread
  already exited); each call to \<^verbatim>\<open>Resume\<close> issues exactly one decrement. Resuming a
  thread whose count is already zero leaves it at zero.
\<close>

definition Suspend :: "'c os_thread \<Rightarrow> bool \<times> 'c os_thread" where
  "Suspend t =
     (let t' = t\<lparr>calls := calls t @ [SuspendThread]\<rparr>
      in if suspend_access t then (True, t'\<lparr>suspend_count := suspend_count t + 1\<rparr>)
         else (False, t'))"

definition Resume :: "'c os_thread \<Rightarrow> bool \<times> 'c os_thread" where
  "Resume t =
     (let t' = t\<lparr>calls := calls t @ [ResumeThread]\<rparr>
      in if suspend_access t then (True, t'\<lparr>suspend_count := suspend_count t - 1\<rparr>)
         else (False, t'))"

text \<open>
  Modelled from the spec: the get-context and set-context calls of the operating system.
  The layout of the register state is opaque, so the selection of register groups by
  \<^verbatim>\<open>flags\<close> is not modelled: a successful read hands back the thread's register state,
  a failed one leaves the caller's buffer as it was.
\<close>

definition os_get_context :: "DWORD \<Rightarrow> 'c \<Rightarrow> 'c os_thread \<Rightarrow> bool \<times> 'c \<times> 'c os_thread" where
  "os_get_context flags ctx t =
     (let t' = t\<lparr>calls := calls t @ [GetThreadContext]\<rparr>
      in if context_access t then (True, registers t, t') else (False, ctx, t'))"

definition os_set_context :: "'c \<Rightarrow> 'c os_thread \<Rightarrow> bool \<times> 'c os_thread" where
  "os_set_context ctx t =
     (let t' = t\<lparr>calls := calls t @ [SetThreadContext]\<rparr>
      in if context_access t then (True, t'\<lparr>registers := ctx\<rparr>) else (False, t'))"

section \<open>Context access\<close>

text \<open>
  Modelled from the spec: the algorithm shared by both overloads of \<^verbatim>\<open>GetContext\<close>
  (the 32-bit and the native register state are the two instances of the type \<open>'c\<close>):
  \<^enum> if \<^verbatim>\<open>dontSuspend\<close> is false, suspend the thread;
  \<^enum> perform the get-context call with the requested flags; on failure, still attempt
    to resume before returning false;
  \<^enum> if the thread was suspended by this call, resume it;
  \<^enum> return the success or failure of the register operation.
\<close>

definition GetContext :: "'c \<Rightarrow> DWORD \<Rightarrow> bool \<Rightarrow> 'c os_thread \<Rightarrow> bool \<times> 'c \<times> 'c os_thread" where
  "GetContext ctx flags dontSuspend t =
     (let t1 = (if dontSuspend then t else snd (Suspend t));
          (ok, ctx', t2) = os_get_context flags ctx t1;
          t3 = (if dontSuspend then t2 else snd (Resume t2))
      in (ok, ctx', t3))"

text \<open>Modelled from the spec: \<^verbatim>\<open>SetContext\<close>, by the same four steps.\<close>

definition SetContext :: "'c \<Rightarrow> bool \<Rightarrow> 'c os_thread \<Rightarrow> bool \<times> 'c os_thread" where
  "SetContext ctx dontSuspend t =
     (let t1 = (if dontSuspend then t else snd (Suspend t));
          (ok, t2) = os_set_context ctx t1;
          t3 = (if dontSuspend then t2 else snd (Resume t2))
      in (ok, t3))"

text \<open>A running thread whose context calls are refused, and one whose calls go through.\<close>

definition refused_thread :: "nat os_thread" where
  "refused_thread =
     \<lparr>suspend_count = 0, suspend_access = True, context_access = False, registers = 7,
      debug_address = (\<lambda>_. 0), debug_control = 0, calls = []\<rparr>"

definition live_thread :: "nat os_thread" where
  "live_thread =
     \<lparr>suspend_count = 0, suspend_access = True, context_access = True, registers = 7,
      debug_address = (\<lambda>_. 0), debug_control = 0, calls = []\<rparr>"

section \<open>Hardware breakpoints\<close>

text \<open>
  Modelled from the spec: a fixed array of four slots, each free (\<open>None\<close>) or occupied by
  an address, a type and a length. Only the indices 0 to 3 are ever read or written.
\<close>

record hwbp_slot =
  bp_address :: ptr_t
  bp_type :: HWBPType
  bp_length :: HWBPLength

type_synonym hwbp_slots = "nat \<Rightarrow> hwbp_slot option"

record 'c hwbp_state =
  slots :: hwbp_slots
  thread :: "'c os_thread"

text \<open>
  Modelled from the spec: the packing of the slots into the native debug control register
  (DR7 of the x86 family): one enable bit per slot, bit \<open>2 * i\<close> for slot \<open>i\<close>, and for
  each slot two bits of type at \<open>16 + 4 * i\<close> and two bits of length at \<open>18 + 4 * i\<close>.
  The type and the length are stored as the values of their enumerators. A free slot
  contributes nothing.
\<close>

definition slot_control :: "nat \<Rightarrow> hwbp_slot option \<Rightarrow> 64 word" where
  "slot_control i sl =
     (case sl of
        None \<Rightarrow> 0
      | Some b \<Rightarrow>
          push_bit (2 * i) 1
          OR push_bit (16 + 4 * i) (word_of_int (HWBPType_val (bp_type b)))
          OR push_bit (18 + 4 * i) (word_of_int (HWBPLength_val (bp_length b))))"

definition encode_control :: "hwbp_slots \<Rightarrow> 64 word" where
  "encode_control sl =
     slot_control 0 (sl 0) OR slot_control 1 (sl 1)
     OR slot_control 2 (sl 2) OR slot_control 3 (sl 3)"

text \<open>
  Modelled from the spec: the fields of the debug control register as the processor reads
  them, the enable bit of slot \<open>i\<close>, its two-bit type field and its two-bit length
  field. The spec names the fields and their widths; their positions are those of DR7.
\<close>

definition control_enabled :: "64 word \<Rightarrow> nat \<Rightarrow> bool" where
  "control_enabled d i = bit d (2 * i)"

definition control_type :: "64 word \<Rightarrow> nat \<Rightarrow> 64 word" where
  "control_type d i = take_bit 2 (drop_bit (16 + 4 * i) d)"

definition control_length :: "64 word \<Rightarrow> nat \<Rightarrow> 64 word" where
  "control_length d i = take_bit 2 (drop_bit (18 + 4 * i) d)"

text \<open>
  Modelled from the spec: the bits of the control register that belong to the packing, the
  four enable bits (\<open>0x55\<close>) and the sixteen bits of type and length fields
  (\<open>0xFFFF0000\<close>).
\<close>

definition control_field_mask :: "64 word" where
  "control_field_mask = 0xFFFF0055"

text \<open>
  Modelled from the spec: the write of the debug registers. It is a set-context call, so
  it fails when the context call is refused. On success the control register holds the
  packing of the slots, and the address register of every occupied slot holds its address.
\<close>

definition write_debug_registers :: "hwbp_slots \<Rightarrow> 'c os_thread \<Rightarrow> bool \<times> 'c os_thread" where
  "write_debug_registers sl t =
     (let t' = t\<lparr>calls := calls t @ [SetThreadContext]\<rparr>
      in if context_access t
         then (True, t'\<lparr>debug_address :=
                           (\<lambda>i. case sl i of None \<Rightarrow> debug_address t i | Some b \<Rightarrow> bp_address b),
                        debug_control := encode_control sl\<rparr>)
         else (False, t'))"

text \<open>
  Modelled from the spec: the choice of a free slot among the four. The spec leaves the
  choice open; the model takes the free slot of lowest index.
\<close>

definition free_slot :: "hwbp_slots \<Rightarrow> nat option" where
  "free_slot sl = List.find (\<lambda>i. sl i = None) [0, 1, 2, 3]"

text \<open>
  Modelled from the spec: an address is aligned for a length when it is a multiple of the
  length's number of bytes. \<^verbatim>\<open>AddHWBP\<close> judges the address against the requested
  length, as the spec words it.
\<close>

definition aligned :: "ptr_t \<Rightarrow> HWBPLength \<Rightarrow> bool" where
  "aligned addr len = (unat addr mod HWBPLength_bytes len = 0)"

text \<open>
  Modelled from the spec: \<^verbatim>\<open>AddHWBP(addr, type, length)\<close> selects a free slot (the
  execute type forces a length of one byte) and returns its index, or \<open>-1\<close> if no slot is
  free, if the address is misaligned for the requested length, or if the write of the
  debug registers fails. The thread is suspended before the write and resumed after it.
  A failed call leaves the slots as they were.
\<close>

definition AddHWBP :: "ptr_t \<Rightarrow> HWBPType \<Rightarrow> HWBPLength \<Rightarrow> 'c hwbp_state \<Rightarrow> int \<times> 'c hwbp_state" where
  "AddHWBP addr type len st =
     (case free_slot (slots st) of
        None \<Rightarrow> (- 1, st)
      | Some i \<Rightarrow>
          if \<not> aligned addr len then (- 1, st)
          else
            let b = \<lparr>bp_address = addr, bp_type = type,
                     bp_length = (if type = hwbp_execute then hwbp_1 else len)\<rparr>;
                sl' = (slots st)(i := Some b);
                t1 = snd (Suspend (thread st));
                (ok, t2) = write_debug_registers sl' t1;
                t3 = snd (Resume t2)
            in if ok then (int i, \<lparr>slots = sl', thread = t3\<rparr>)
               else (- 1, st\<lparr>thread := t3\<rparr>))"

text \<open>
  Modelled from the spec: \<^verbatim>\<open>RemoveHWBP(idx)\<close> clears the slot's enable bit and frees
  the index for reuse; removing a slot that is already free is a no-op success. An index
  outside 0 to 3 names no slot and is reported as a failure, as is a failed write of the
  debug registers.
\<close>

definition RemoveHWBP :: "int \<Rightarrow> 'c hwbp_state \<Rightarrow> bool \<times> 'c hwbp_state" where
  "RemoveHWBP idx st =
     (if idx < 0 \<or> 3 < idx then (False, st)
      else
        case slots st (nat idx) of
          None \<Rightarrow> (True, st)
        | Some b \<Rightarrow>
            let sl' = (slots st)(nat idx := None);
                t1 = snd (Suspend (thread st));
                (ok, t2) = write_debug_registers sl' t1;
                t3 = snd (Resume t2)
            in if ok then (True, \<lparr>slots = sl', thread = t3\<rparr>)
               else (False, st\<lparr>thread := t3\<rparr>))"

text \<open>
  Modelled from the spec: \<^verbatim>\<open>RemoveHWBP(address)\<close> locates the occupied slot whose
  stored address matches and removes it, or reports failure if none does.
\<close>

definition slot_holds :: "hwbp_slots \<Rightarrow> ptr_t \<Rightarrow> nat \<Rightarrow> bool" where
  "slot_holds sl ptr i = (case sl i of None \<Rightarrow> False | Some b \<Rightarrow> bp_address b = ptr)"

definition RemoveHWBP_ptr :: "ptr_t \<Rightarrow> 'c hwbp_state \<Rightarrow> bool \<times> 'c hwbp_state" where
  "RemoveHWBP_ptr ptr st =
     (case List.find (slot_holds (slots st) ptr) [0, 1, 2, 3] of
        None \<Rightarrow> (False, st)
      | Some i \<Rightarrow> RemoveHWBP (int i) st)"

text \<open>A thread with no breakpoints set.\<close>

definition no_breakpoints :: "nat hwbp_state" where
  "no_breakpoints = \<lparr>slots = (\<lambda>_. None), thread = live_thread\<rparr>"

section \<open>Example states\<close>

text \<open>One breakpoint set, on a thread whose context calls go through.\<close>

definition one_breakpoint :: "nat hwbp_state" where
  "one_breakpoint =
     \<lparr>slots = (\<lambda>_. None)
        (0 := Some \<lparr>bp_address = 0x1000, bp_type = hwbp_write, bp_length = hwbp_4\<rparr>),
      thread = live_thread\<rparr>"

text \<open>The states reached by four successive calls of \<^verbatim>\<open>AddHWBP\<close> on a fresh thread.\<close>

definition after_1 :: "nat hwbp_state" where
  "after_1 = snd (AddHWBP 0x1000 hwbp_write hwbp_4 no_breakpoints)"

definition after_2 :: "nat hwbp_state" where
  "after_2 = snd (AddHWBP 0x2000 hwbp_execute hwbp_8 after_1)"

definition after_3 :: "nat hwbp_state" where
  "after_3 = snd (AddHWBP 0x3002 hwbp_access hwbp_2 after_2)"

definition after_4 :: "nat hwbp_state" where
  "after_4 = snd (AddHWBP 0x4008 hwbp_access hwbp_8 after_3)"

text \<open>A full table of slots, one of each type and length in use.\<close>

definition four_breakpoints :: hwbp_slots where
  "four_breakpoints = (\<lambda>_. None)
     (0 := Some \<lparr>bp_address = 0x1000, bp_type = hwbp_write, bp_length = hwbp_4\<rparr>,
      1 := Some \<lparr>bp_address = 0x2000, bp_type = hwbp_execute, bp_length = hwbp_1\<rparr>,
      2 := Some \<lparr>bp_address = 0x3002, bp_type = hwbp_access, bp_length = hwbp_2\<rparr>,
      3 := Some \<lparr>bp_address = 0x4008, bp_type = hwbp_access, bp_length = hwbp_8\<rparr>)"

section \<open>Properties of the inline member functions\<close>

text \<open>
  Claim C1. For two distinct objects, after the assignment \<^verbatim>\<open>a = b\<close> the handle of
  \<^verbatim>\<open>a\<close> is the handle \<^verbatim>\<open>b\<close> had before the assignment, and the handle of \<^verbatim>\<open>b\<close> is
  null.
\<close>

theorem operator_assign_transfers_handle:
  assumes "this \<noteq> other"
  shows "Thread_handle (operator_assign this other s) this = Thread_handle s other
       \<and> Thread_handle (operator_assign this other s) other = NULL"
  using assms
  by (simp add: operator_assign_def ReleaseHandle_def Thread_handle_def Let_def)

theorem operator_assign_transfers_handle_witness:
  "(0::loc) \<noteq> 1
   \<and> Thread_handle (operator_assign 0 1 two_threads) 0 = 8
   \<and> Thread_handle two_threads 1 = 8
   \<and> Thread_handle (operator_assign 0 1 two_threads) 1 = NULL"
  using operator_assign_transfers_handle [of 0 1 two_threads]
  by (simp add: two_threads_def Thread_handle_def)

text \<open>
  Claim C2, as stated: the id of an object never changes, whatever operation is applied
  to it, copy assignment included. The assignment copies \<^verbatim>\<open>_id\<close> from its source, so
  the claim fails for two objects with different ids.
\<close>

theorem id_never_changes_counterexample:
  "Thread_id two_threads 0 = 100
   \<and> Thread_id (operator_assign 0 1 two_threads) 0 = 200"
  by (simp add: operator_assign_def ReleaseHandle_def Thread_id_def two_threads_def Let_def)

text \<open>
  Claim C2, amended. \<^verbatim>\<open>ReleaseHandle\<close> leaves every id as it was; the assignment
  \<^verbatim>\<open>a = b\<close> sets the id of \<^verbatim>\<open>a\<close> to the id of \<^verbatim>\<open>b\<close> and leaves the id of every
  other object (the source \<^verbatim>\<open>b\<close> among them) as it was.
\<close>

theorem id_changes_only_by_assignment:
  "Thread_id (ReleaseHandle p s) q = Thread_id s q
   \<and> Thread_id (operator_assign this other s) this = Thread_id s other
   \<and> (q \<noteq> this \<longrightarrow> Thread_id (operator_assign this other s) q = Thread_id s q)"
  by (simp add: operator_assign_def ReleaseHandle_def Thread_id_def Let_def)

theorem id_changes_only_by_assignment_witness:
  "Thread_id (ReleaseHandle 1 two_threads) 1 = 200
   \<and> Thread_id (operator_assign 0 1 two_threads) 0 = 200
   \<and> Thread_id two_threads 0 = 100
   \<and> (1::loc) \<noteq> 0 \<and> Thread_id (operator_assign 0 1 two_threads) 1 = 200"
  using id_changes_only_by_assignment [of 1 two_threads 1 0 1]
  by (simp add: two_threads_def Thread_id_def)

text \<open>
  Claim C3. \<^verbatim>\<open>valid()\<close> is true if and only if the handle is non-null and
  \<^verbatim>\<open>ExitCode()\<close> returns the still-running sentinel \<^verbatim>\<open>STILL_ACTIVE\<close>.
\<close>

theorem valid_iff:
  "valid ExitCode STILL_ACTIVE s this \<longleftrightarrow>
     (Thread_handle s this \<noteq> NULL \<and> ExitCode (s this) = STILL_ACTIVE)"
  by (simp add: valid_def Thread_handle_def)

text \<open>
  Claim C9. \<^verbatim>\<open>a == b\<close> holds if and only if the two ids are equal; the handle and the
  owning-process reference play no part, so two objects with the same id and different
  handles (and different owning processes) compare equal.
\<close>

theorem operator_eq_iff_id:
  "(operator_eq s a b \<longleftrightarrow> Thread_id s a = Thread_id s b)
   \<and> operator_eq
        (s(a := \<lparr>m_core = c1, m_id = i, m_handle = h1\<rparr>,
           b := \<lparr>m_core = c2, m_id = i, m_handle = h2\<rparr>)) a b"
  by (simp add: operator_eq_def Thread_id_def)

text \<open>
  Claim C10. For an object with a non-null handle, the self-assignment \<^verbatim>\<open>a = a\<close>
  leaves the handle null: the handle is copied onto itself and then released through the
  source, which is the same object.
\<close>

theorem self_assignment_loses_handle:
  assumes "Thread_handle s a \<noteq> NULL"
  shows "Thread_handle (operator_assign a a s) a = NULL"
  by (simp add: operator_assign_def ReleaseHandle_def Thread_handle_def Let_def)

theorem self_assignment_loses_handle_witness:
  "Thread_handle two_threads 0 = 4 \<and> (4::HANDLE) \<noteq> NULL
   \<and> Thread_handle (operator_assign 0 0 two_threads) 0 = NULL"
  using self_assignment_loses_handle [of two_threads 0]
  by (simp add: two_threads_def Thread_handle_def NULL_def)

section \<open>Properties of context access\<close>

text \<open>
  Claim C7. For a call of \<^verbatim>\<open>GetContext\<close> or \<^verbatim>\<open>SetContext\<close> with
  \<^verbatim>\<open>dontSuspend = false\<close> whose register operation fails: the call returns false; the
  primitives it calls are a suspend, the register operation and then a resume, so the
  resume is attempted after the failure; and the suspend count is left as it was found.
\<close>

theorem failed_context_access_resumes:
  assumes "\<not> context_access t"
  shows "fst (GetContext ctx flags False t) = False
       \<and> calls (snd (snd (GetContext ctx flags False t)))
           = calls t @ [SuspendThread, GetThreadContext, ResumeThread]
       \<and> suspend_count (snd (snd (GetContext ctx flags False t))) = suspend_count t
       \<and> fst (SetContext ctx False t) = False
       \<and> calls (snd (SetContext ctx False t))
           = calls t @ [SuspendThread, SetThreadContext, ResumeThread]
       \<and> suspend_count (snd (SetContext ctx False t)) = suspend_count t"
  using assms
  by (simp add: GetContext_def SetContext_def Suspend_def Resume_def
      os_get_context_def os_set_context_def Let_def)

theorem failed_context_access_resumes_witness:
  "\<not> context_access refused_thread
   \<and> GetContext (0::nat) 0 False refused_thread
       = (False, 0, refused_thread\<lparr>calls := [SuspendThread, GetThreadContext, ResumeThread]\<rparr>)
   \<and> SetContext (0::nat) False refused_thread
       = (False, refused_thread\<lparr>calls := [SuspendThread, SetThreadContext, ResumeThread]\<rparr>)"
  using failed_context_access_resumes [of refused_thread 0 0]
  by (simp add: GetContext_def SetContext_def Suspend_def Resume_def
      os_get_context_def os_set_context_def Let_def refused_thread_def)

section \<open>The packing of the debug control register\<close>

text \<open>
  The values of both enumerations fit in two bits, so a slot's contribution to the control
  register has bits only at its enable bit and inside its own two fields.
\<close>

lemma take_bit_type_code:
  "take_bit 2 (word_of_int (HWBPType_val t) :: 64 word) = word_of_int (HWBPType_val t)"
  by (cases t) simp_all

lemma take_bit_length_code:
  "take_bit 2 (word_of_int (HWBPLength_val l) :: 64 word) = word_of_int (HWBPLength_val l)"
  by (cases l) simp_all

lemma bit_two_bits:
  fixes w :: "64 word"
  assumes "take_bit 2 w = w" "bit w n"
  shows "n < 2"
proof -
  from assms have "bit (take_bit 2 w) n" by simp
  then show ?thesis by (simp add: bit_take_bit_iff)
qed

lemma bit_slot_field:
  fixes ty le :: "64 word"
  assumes "take_bit 2 ty = ty" "take_bit 2 le = le" "j < 4"
  shows "bit (push_bit (2 * j) 1 OR push_bit (16 + 4 * j) ty OR push_bit (18 + 4 * j) le) m
     \<longleftrightarrow> m = 2 * j
        \<or> (16 + 4 * j \<le> m \<and> m < 18 + 4 * j \<and> bit ty (m - (16 + 4 * j)))
        \<or> (18 + 4 * j \<le> m \<and> m < 20 + 4 * j \<and> bit le (m - (18 + 4 * j)))"
  using assms bit_two_bits [of ty "m - (16 + 4 * j)"] bit_two_bits [of le "m - (18 + 4 * j)"]
  by (auto simp add: bit_simps)


lemma bit_slot_control:
  assumes "j < 4"
  shows "bit (slot_control j (Some b)) m
     \<longleftrightarrow> m = 2 * j
        \<or> (16 + 4 * j \<le> m \<and> m < 18 + 4 * j
            \<and> bit (word_of_int (HWBPType_val (bp_type b)) :: 64 word) (m - (16 + 4 * j)))
        \<or> (18 + 4 * j \<le> m \<and> m < 20 + 4 * j
            \<and> bit (word_of_int (HWBPLength_val (bp_length b)) :: 64 word) (m - (18 + 4 * j)))"
  unfolding slot_control_def option.case
  by (rule bit_slot_field [OF take_bit_type_code take_bit_length_code assms])

lemma slot_control_None: "slot_control j None = 0"
  by (simp add: slot_control_def)

lemma control_enabled_slot:
  assumes "i < 4" "j < 4"
  shows "control_enabled (slot_control j x) i \<longleftrightarrow> i = j \<and> x \<noteq> None"
proof (cases x)
  case None
  then show ?thesis by (simp add: control_enabled_def slot_control_None)
next
  case (Some b)
  show ?thesis
    using assms unfolding Some control_enabled_def bit_slot_control [OF assms(2)]
    by auto
qed

lemma control_type_slot:
  assumes "i < 4" "j < 4"
  shows "control_type (slot_control j x) i =
     (if i = j then (case x of None \<Rightarrow> 0 | Some b \<Rightarrow> word_of_int (HWBPType_val (bp_type b))) else 0)"
proof (cases x)
  case None
  then show ?thesis by (simp add: control_type_def slot_control_None)
next
  case (Some b)
  have "bit (control_type (slot_control j (Some b)) i) n
      \<longleftrightarrow> bit (if i = j then word_of_int (HWBPType_val (bp_type b)) else (0 :: 64 word)) n" for n
    using assms
      bit_two_bits [OF take_bit_type_code, of "bp_type b" n]
      bit_two_bits [OF take_bit_length_code, of "bp_length b" "n + (16 + 4 * i) - (18 + 4 * j)"]
      bit_two_bits [OF take_bit_type_code, of "bp_type b" "n + (16 + 4 * i) - (16 + 4 * j)"]
    unfolding control_type_def bit_take_bit_iff bit_drop_bit_eq bit_slot_control [OF assms(2)]
    by (auto simp add: ac_simps)
  then show ?thesis
    unfolding Some by (simp add: bit_eq_iff)
qed


lemma control_length_slot:
  assumes "i < 4" "j < 4"
  shows "control_length (slot_control j x) i =
     (if i = j then (case x of None \<Rightarrow> 0 | Some b \<Rightarrow> word_of_int (HWBPLength_val (bp_length b))) else 0)"
proof (cases x)
  case None
  then show ?thesis by (simp add: control_length_def slot_control_None)
next
  case (Some b)
  have "bit (control_length (slot_control j (Some b)) i) n
      \<longleftrightarrow> bit (if i = j then word_of_int (HWBPLength_val (bp_length b)) else (0 :: 64 word)) n" for n
    using assms
      bit_two_bits [OF take_bit_length_code, of "bp_length b" n]
      bit_two_bits [OF take_bit_length_code, of "bp_length b" "n + (18 + 4 * i) - (18 + 4 * j)"]
      bit_two_bits [OF take_bit_type_code, of "bp_type b" "n + (18 + 4 * i) - (16 + 4 * j)"]
    unfolding control_length_def bit_take_bit_iff bit_drop_bit_eq bit_slot_control [OF assms(2)]
    by (auto simp add: ac_simps)
  then show ?thesis
    unfolding Some by (simp add: bit_eq_iff)
qed

lemma bit_control_field_mask:
  assumes "m \<in> {0, 2, 4, 6} \<or> (16 \<le> m \<and> m < 32)"
  shows "bit control_field_mask m"
proof -
  from assms have "m \<in> {0, 2, 4, 6, 16, 17, 18, 19, 20, 21, 22, 23, 24, 25, 26, 27, 28, 29, 30, 31}"
    unfolding insert_iff empty_iff by arith
  then show ?thesis
    unfolding control_field_mask_def by (elim insertE emptyE) simp_all
qed

lemma slot_control_within_mask:
  assumes "j < 4"
  shows "slot_control j x AND NOT control_field_mask = 0"
proof (cases x)
  case None
  then show ?thesis by (simp add: slot_control_None)
next
  case (Some b)
  have "\<not> bit (slot_control j (Some b) AND NOT control_field_mask) m" for m
  proof
    assume "bit (slot_control j (Some b) AND NOT control_field_mask) m"
    then have s: "bit (slot_control j (Some b)) m" and n: "\<not> bit control_field_mask m"
      by (simp_all add: bit_and_iff bit_not_iff)
    from s assms have "m \<in> {0, 2, 4, 6} \<or> (16 \<le> m \<and> m < 32)"
      unfolding bit_slot_control [OF assms] by auto
    with n show False
      using bit_control_field_mask by blast
  qed
  then show ?thesis
    unfolding Some by (simp add: bit_eq_iff)
qed

lemma control_length_or: "control_length (a OR b) i = control_length a i OR control_length b i"
  by (simp add: control_length_def)

lemma control_type_or: "control_type (a OR b) i = control_type a i OR control_type b i"
  by (simp add: control_type_def)

lemma control_enabled_or: "control_enabled (a OR b) i \<longleftrightarrow> control_enabled a i \<or> control_enabled b i"
  by (simp add: control_enabled_def bit_or_iff)

lemma below_4: "i < (4::nat) \<longleftrightarrow> i = 0 \<or> i = 1 \<or> i = 2 \<or> i = 3"
  by auto

lemma control_length_encode:
  assumes "i < 4"
  shows "control_length (encode_control sl) i =
     (case sl i of None \<Rightarrow> 0 | Some b \<Rightarrow> word_of_int (HWBPLength_val (bp_length b)))"
  using assms unfolding below_4
  by (auto simp add: encode_control_def control_length_or control_length_slot)

lemma control_type_encode:
  assumes "i < 4"
  shows "control_type (encode_control sl) i =
     (case sl i of None \<Rightarrow> 0 | Some b \<Rightarrow> word_of_int (HWBPType_val (bp_type b)))"
  using assms unfolding below_4
  by (auto simp add: encode_control_def control_type_or control_type_slot)

lemma control_enabled_encode:
  assumes "i < 4"
  shows "control_enabled (encode_control sl) i \<longleftrightarrow> sl i \<noteq> None"
  using assms unfolding below_4
  by (auto simp add: encode_control_def control_enabled_or control_enabled_slot)

lemma encode_control_within_mask: "encode_control sl AND NOT control_field_mask = 0"
  by (simp add: encode_control_def bit.conj_disj_distrib2 slot_control_within_mask)

lemma uint_type_code: "uint (word_of_int (HWBPType_val t) :: 64 word) = HWBPType_val t"
  by (cases t) simp_all

lemma uint_length_code: "uint (word_of_int (HWBPLength_val l) :: 64 word) = HWBPLength_val l"
  by (cases l) simp_all

text \<open>
  Claim C6. The packing written to the debug control register holds, for each of the four
  slots, one enable bit (set exactly for an occupied slot), a two-bit type field and a
  two-bit length field that read back as the values of the slot's enumerators, and no
  other bit; the type values are execute = 0, write = 1, access = 3, and the length values
  are 1 byte = 0, 2 bytes = 1, 8 bytes = 2, 4 bytes = 3.
\<close>

theorem debug_control_encoding:
  "(\<forall>i<4.
      (control_enabled (encode_control sl) i \<longleftrightarrow> sl i \<noteq> None)
      \<and> uint (control_type (encode_control sl) i)
          = (case sl i of None \<Rightarrow> 0 | Some b \<Rightarrow> HWBPType_val (bp_type b))
      \<and> uint (control_length (encode_control sl) i)
          = (case sl i of None \<Rightarrow> 0 | Some b \<Rightarrow> HWBPLength_val (bp_length b)))
   \<and> encode_control sl AND NOT control_field_mask = 0
   \<and> (context_access t \<longrightarrow>
        debug_control (snd (write_debug_registers sl t)) = encode_control sl)
   \<and> HWBPType_val hwbp_execute = 0 \<and> HWBPType_val hwbp_write = 1
   \<and> HWBPType_val hwbp_access = 3
   \<and> HWBPLength_bytes hwbp_1 = 1 \<and> HWBPLength_val hwbp_1 = 0
   \<and> HWBPLength_bytes hwbp_2 = 2 \<and> HWBPLength_val hwbp_2 = 1
   \<and> HWBPLength_bytes hwbp_8 = 8 \<and> HWBPLength_val hwbp_8 = 2
   \<and> HWBPLength_bytes hwbp_4 = 4 \<and> HWBPLength_val hwbp_4 = 3"
proof -
  have fields: "(control_enabled (encode_control sl) i \<longleftrightarrow> sl i \<noteq> None)
      \<and> uint (control_type (encode_control sl) i)
          = (case sl i of None \<Rightarrow> 0 | Some b \<Rightarrow> HWBPType_val (bp_type b))
      \<and> uint (control_length (encode_control sl) i)
          = (case sl i of None \<Rightarrow> 0 | Some b \<Rightarrow> HWBPLength_val (bp_length b))"
    if "i < 4" for i
    using that
    by (simp add: control_enabled_encode control_type_encode control_length_encode
        uint_type_code uint_length_code split: option.split)
  have written: "debug_control (snd (write_debug_registers sl t)) = encode_control sl"
    if "context_access t"
    using that by (simp add: write_debug_registers_def)
  from fields written encode_control_within_mask [of sl] show ?thesis
    by simp
qed

theorem debug_control_encoding_witness:
  "encode_control four_breakpoints = 0xB70D0055
   \<and> control_enabled 0xB70D0055 0 \<and> control_enabled 0xB70D0055 1
   \<and> control_enabled 0xB70D0055 2 \<and> control_enabled 0xB70D0055 3
   \<and> uint (control_type 0xB70D0055 0) = 1 \<and> uint (control_length 0xB70D0055 0) = 3
   \<and> uint (control_type 0xB70D0055 1) = 0 \<and> uint (control_length 0xB70D0055 1) = 0
   \<and> uint (control_type 0xB70D0055 2) = 3 \<and> uint (control_length 0xB70D0055 2) = 1
   \<and> uint (control_type 0xB70D0055 3) = 3 \<and> uint (control_length 0xB70D0055 3) = 2
   \<and> debug_control (snd (write_debug_registers four_breakpoints live_thread)) = 0xB70D0055"
proof -
  have e: "encode_control four_breakpoints = 0xB70D0055"
    by (simp add: encode_control_def slot_control_def four_breakpoints_def)
  have a: "context_access live_thread"
    by (simp add: live_thread_def)
  have s: "four_breakpoints 0 = Some \<lparr>bp_address = 0x1000, bp_type = hwbp_write, bp_length = hwbp_4\<rparr>"
    "four_breakpoints 1 = Some \<lparr>bp_address = 0x2000, bp_type = hwbp_execute, bp_length = hwbp_1\<rparr>"
    "four_breakpoints 2 = Some \<lparr>bp_address = 0x3002, bp_type = hwbp_access, bp_length = hwbp_2\<rparr>"
    "four_breakpoints 3 = Some \<lparr>bp_address = 0x4008, bp_type = hwbp_access, bp_length = hwbp_8\<rparr>"
    by (simp_all add: four_breakpoints_def)
  from debug_control_encoding [of four_breakpoints live_thread]
  have "(\<forall>i<4.
      (control_enabled 0xB70D0055 i \<longleftrightarrow> four_breakpoints i \<noteq> None)
      \<and> uint (control_type 0xB70D0055 i)
          = (case four_breakpoints i of None \<Rightarrow> 0 | Some b \<Rightarrow> HWBPType_val (bp_type b))
      \<and> uint (control_length 0xB70D0055 i)
          = (case four_breakpoints i of None \<Rightarrow> 0 | Some b \<Rightarrow> HWBPLength_val (bp_length b)))
    \<and> debug_control (snd (write_debug_registers four_breakpoints live_thread)) = 0xB70D0055"
    unfolding e using a by blast
  then have w: "debug_control (snd (write_debug_registers four_breakpoints live_thread)) = 0xB70D0055"
    and f: "\<And>i. i < 4 \<Longrightarrow>
      (control_enabled 0xB70D0055 i \<longleftrightarrow> four_breakpoints i \<noteq> None)
      \<and> uint (control_type 0xB70D0055 i)
          = (case four_breakpoints i of None \<Rightarrow> 0 | Some b \<Rightarrow> HWBPType_val (bp_type b))
      \<and> uint (control_length 0xB70D0055 i)
          = (case four_breakpoints i of None \<Rightarrow> 0 | Some b \<Rightarrow> HWBPLength_val (bp_length b))"
    by blast+
  from f [of 0] f [of 1] f [of 2] f [of 3] w e show ?thesis
    unfolding s by simp
qed

section \<open>Properties of the breakpoint slots\<close>

lemma free_slot_Some: "free_slot sl = Some i \<Longrightarrow> i < 4 \<and> sl i = None"
  by (auto simp: free_slot_def split: if_splits)

lemma AddHWBP_ok:
  assumes "context_access (thread st)" "aligned addr len" "free_slot (slots st) = Some i"
  shows "fst (AddHWBP addr type len st) = int i"
    and "slots (snd (AddHWBP addr type len st)) =
           (slots st)(i := Some \<lparr>bp_address = addr, bp_type = type,
                     bp_length = (if type = hwbp_execute then hwbp_1 else len)\<rparr>)"
    and "context_access (thread (snd (AddHWBP addr type len st)))"
    and "debug_control (thread (snd (AddHWBP addr type len st)))
           = encode_control (slots (snd (AddHWBP addr type len st)))"
  using assms
  by (simp_all add: AddHWBP_def Let_def write_debug_registers_def Suspend_def Resume_def)

lemma AddHWBP_failed:
  assumes "fst (AddHWBP addr type len st) = - 1"
  shows "slots (snd (AddHWBP addr type len st)) = slots st"
  using assms
  by (auto simp add: AddHWBP_def Let_def split: option.splits if_splits prod.splits)

lemma AddHWBP_succeeded:
  assumes "fst (AddHWBP addr type len st) \<noteq> - 1"
  shows "context_access (thread st) \<and> aligned addr len
       \<and> (\<exists>i. free_slot (slots st) = Some i)"
  using assms
  by (auto simp add: AddHWBP_def Let_def write_debug_registers_def Suspend_def Resume_def
      split: option.splits if_splits prod.splits)

lemma AddHWBP_full:
  assumes "free_slot (slots st) = None"
  shows "AddHWBP addr type len st = (- 1, st)"
  using assms by (simp add: AddHWBP_def)

lemma RemoveHWBP_ok:
  assumes "RemoveHWBP idx st = (True, st')" "slots st (nat idx) \<noteq> None"
  shows "0 \<le> idx \<and> idx \<le> 3 \<and> slots st' = (slots st)(nat idx := None)
       \<and> context_access (thread st')"
  using assms
  by (auto simp add: RemoveHWBP_def Let_def write_debug_registers_def Suspend_def Resume_def
      split: option.splits if_splits prod.splits)

lemmas run_defs = AddHWBP_def RemoveHWBP_def free_slot_def aligned_def write_debug_registers_def
  Suspend_def Resume_def Let_def no_breakpoints_def
  live_thread_def refused_thread_def

lemma after_1_eval: "AddHWBP 0x1000 hwbp_write hwbp_4 no_breakpoints = (0, after_1)"
    "slots after_1 = (\<lambda>_. None)(0 := Some \<lparr>bp_address = 0x1000, bp_type = hwbp_write, bp_length = hwbp_4\<rparr>)"
    "context_access (thread after_1)"
  by (simp_all add: after_1_def run_defs)

lemma after_2_eval: "AddHWBP 0x2000 hwbp_execute hwbp_8 after_1 = (1, after_2)"
    "slots after_2 = (slots after_1)(1 := Some \<lparr>bp_address = 0x2000, bp_type = hwbp_execute, bp_length = hwbp_1\<rparr>)"
    "context_access (thread after_2)"
  using after_1_eval(2,3)
  by (simp_all add: after_2_def AddHWBP_def free_slot_def aligned_def write_debug_registers_def
      Suspend_def Resume_def Let_def)

lemma after_3_eval: "AddHWBP 0x3002 hwbp_access hwbp_2 after_2 = (2, after_3)"
    "slots after_3 = (slots after_2)(2 := Some \<lparr>bp_address = 0x3002, bp_type = hwbp_access, bp_length = hwbp_2\<rparr>)"
    "context_access (thread after_3)"
  using after_1_eval(2,3) after_2_eval(2,3)
  by (simp_all add: after_3_def AddHWBP_def free_slot_def aligned_def write_debug_registers_def
      Suspend_def Resume_def Let_def)

lemma after_4_eval: "AddHWBP 0x4008 hwbp_access hwbp_8 after_3 = (3, after_4)"
    "slots after_4 = (slots after_3)(3 := Some \<lparr>bp_address = 0x4008, bp_type = hwbp_access, bp_length = hwbp_8\<rparr>)"
    "context_access (thread after_4)"
  using after_1_eval(2,3) after_2_eval(2,3) after_3_eval(2,3)
  by (simp_all add: after_4_def AddHWBP_def free_slot_def aligned_def write_debug_registers_def
      Suspend_def Resume_def Let_def)

text \<open>
  Claim C4. Starting with all four slots free, four calls of \<^verbatim>\<open>AddHWBP\<close> return four
  distinct indices in 0 to 3; a fifth call with no removal in between returns \<open>-1\<close>;
  after a successful \<^verbatim>\<open>RemoveHWBP(idx)\<close> the next call of \<^verbatim>\<open>AddHWBP\<close> returns
  \<open>idx\<close> again; and every return value of \<^verbatim>\<open>AddHWBP\<close> other than \<open>-1\<close> lies between
  0 and 3. The property is about the exhaustion of the slots: the calls are ones that do
  not fail for the other causes, so their addresses are aligned for the requested length
  and the thread's context calls go through.
\<close>

theorem AddHWBP_slot_allocation:
  assumes free: "\<forall>i<4. slots st i = None"
    and acc: "context_access (thread st)"
    and al: "aligned a1 l1" "aligned a2 l2" "aligned a3 l3" "aligned a4 l4" "aligned a6 l6"
    and c1: "AddHWBP a1 t1 l1 st = (r1, st1)"
    and c2: "AddHWBP a2 t2 l2 st1 = (r2, st2)"
    and c3: "AddHWBP a3 t3 l3 st2 = (r3, st3)"
    and c4: "AddHWBP a4 t4 l4 st3 = (r4, st4)"
  shows "distinct [r1, r2, r3, r4] \<and> set [r1, r2, r3, r4] \<subseteq> {0, 1, 2, 3}
       \<and> fst (AddHWBP a5 t5 l5 st4) = - 1
       \<and> (RemoveHWBP idx st4 = (True, st') \<longrightarrow> fst (AddHWBP a6 t6 l6 st') = idx)
       \<and> (fst (AddHWBP a t l s) \<noteq> - 1 \<longrightarrow>
            0 \<le> fst (AddHWBP a t l s) \<and> fst (AddHWBP a t l s) \<le> 3)"
proof -
  from free have f: "slots st 0 = None" "slots st 1 = None" "slots st 2 = None" "slots st 3 = None"
    by simp_all
  have "free_slot (slots st) = Some 0"
    using f by (simp add: free_slot_def)
  from AddHWBP_ok [OF acc al(1) this, of t1] c1
  have s1: "r1 = 0" "context_access (thread st1)"
    "slots st1 0 \<noteq> None" "slots st1 1 = None" "slots st1 2 = None" "slots st1 3 = None"
    using f by simp_all
  then have "free_slot (slots st1) = Some 1"
    by (simp add: free_slot_def)
  from AddHWBP_ok [OF s1(2) al(2) this, of t2] c2
  have s2: "r2 = 1" "context_access (thread st2)"
    "slots st2 0 \<noteq> None" "slots st2 1 \<noteq> None" "slots st2 2 = None" "slots st2 3 = None"
    using s1 by simp_all
  then have "free_slot (slots st2) = Some 2"
    by (simp add: free_slot_def)
  from AddHWBP_ok [OF s2(2) al(3) this, of t3] c3
  have s3: "r3 = 2" "context_access (thread st3)"
    "slots st3 0 \<noteq> None" "slots st3 1 \<noteq> None" "slots st3 2 \<noteq> None" "slots st3 3 = None"
    using s2 by simp_all
  then have "free_slot (slots st3) = Some 3"
    by (simp add: free_slot_def)
  from AddHWBP_ok [OF s3(2) al(4) this, of t4] c4
  have s4: "r4 = 3" "context_access (thread st4)"
    "slots st4 0 \<noteq> None" "slots st4 1 \<noteq> None" "slots st4 2 \<noteq> None" "slots st4 3 \<noteq> None"
    using s3 by simp_all
  have four: "distinct [r1, r2, r3, r4] \<and> set [r1, r2, r3, r4] \<subseteq> {0, 1, 2, 3}"
    using s1(1) s2(1) s3(1) s4(1) by simp
  have "free_slot (slots st4) = None"
    using s4 by (simp add: free_slot_def)
  then have fifth: "fst (AddHWBP a5 t5 l5 st4) = - 1"
    by (simp add: AddHWBP_full)
  have reuse: "fst (AddHWBP a6 t6 l6 st') = idx" if rm: "RemoveHWBP idx st4 = (True, st')"
  proof -
    have range: "0 \<le> idx \<and> idx \<le> 3"
      using rm by (auto simp add: RemoveHWBP_def split: if_splits)
    then have idx: "idx = 0 \<or> idx = 1 \<or> idx = 2 \<or> idx = 3"
      by arith
    then have occ: "slots st4 (nat idx) \<noteq> None"
      using s4 by auto
    from RemoveHWBP_ok [OF rm occ]
    have r: "slots st' = (slots st4)(nat idx := None)" "context_access (thread st')"
      by simp_all
    have "free_slot (slots st') = Some (nat idx)"
      using idx s4 unfolding r(1) by (auto simp add: free_slot_def)
    from AddHWBP_ok(1) [OF r(2) al(5) this, of t6] range show ?thesis
      by simp
  qed
  have bound: "0 \<le> fst (AddHWBP a t l s) \<and> fst (AddHWBP a t l s) \<le> 3"
    if ok: "fst (AddHWBP a t l s) \<noteq> - 1"
  proof -
    from AddHWBP_succeeded [OF ok] obtain i
      where i: "context_access (thread s)" "aligned a l" "free_slot (slots s) = Some i"
      by blast
    from AddHWBP_ok(1) [OF i, of t] free_slot_Some [OF i(3)] show ?thesis
      by simp
  qed
  from four fifth reuse bound show ?thesis
    by blast
qed

theorem AddHWBP_slot_allocation_witness:
  "fst (AddHWBP 0x1000 hwbp_write hwbp_4 no_breakpoints) = 0
   \<and> fst (AddHWBP 0x2000 hwbp_execute hwbp_8 after_1) = 1
   \<and> fst (AddHWBP 0x3002 hwbp_access hwbp_2 after_2) = 2
   \<and> fst (AddHWBP 0x4008 hwbp_access hwbp_8 after_3) = 3
   \<and> fst (AddHWBP 0x5000 hwbp_write hwbp_1 after_4) = - 1
   \<and> fst (RemoveHWBP 2 after_4)
   \<and> fst (AddHWBP 0x6000 hwbp_write hwbp_2 (snd (RemoveHWBP 2 after_4))) = 2"
proof -
  have free: "\<forall>i<4. slots no_breakpoints i = None"
    by (simp add: no_breakpoints_def)
  have acc: "context_access (thread no_breakpoints)"
    by (simp add: no_breakpoints_def live_thread_def)
  have al: "aligned 0x1000 hwbp_4" "aligned 0x2000 hwbp_8" "aligned 0x3002 hwbp_2"
    "aligned 0x4008 hwbp_8" "aligned 0x6000 hwbp_2"
    by (simp_all add: aligned_def)
  have rm: "fst (RemoveHWBP 2 after_4)"
    using after_1_eval(2,3) after_2_eval(2,3) after_3_eval(2,3) after_4_eval(2,3)
    by (simp add: RemoveHWBP_def write_debug_registers_def Suspend_def Resume_def Let_def)
  then have rm': "RemoveHWBP 2 after_4 = (True, snd (RemoveHWBP 2 after_4))"
    by (simp add: prod_eq_iff)
  from AddHWBP_slot_allocation
    [where ?a5.0 = "0x5000" and ?t5.0 = hwbp_write and ?l5.0 = hwbp_1 and idx = 2
       and st' = "snd (RemoveHWBP 2 after_4)" and ?t6.0 = hwbp_write
       and a = "0x1000" and t = hwbp_write and l = hwbp_4 and s = no_breakpoints,
     OF free acc al after_1_eval(1) after_2_eval(1) after_3_eval(1) after_4_eval(1)]
  show ?thesis
    using rm rm' after_1_eval(1) after_2_eval(1) after_3_eval(1) after_4_eval(1) by simp
qed

text \<open>
  Claim C5. A call \<^verbatim>\<open>AddHWBP(addr, hwbp_execute, length)\<close>, whatever the requested
  length: when it returns an index, the slot of that index is stored with the length of one
  byte, and the control register written holds the one-byte length value in the slot's
  length field; when it returns \<open>-1\<close>, no slot is stored or changed.
\<close>

theorem execute_breakpoint_has_length_1:
  assumes "AddHWBP addr hwbp_execute len st = (r, st')"
  shows "(r \<noteq> - 1 \<longrightarrow>
            0 \<le> r \<and> r \<le> 3
            \<and> slots st' (nat r)
                = Some \<lparr>bp_address = addr, bp_type = hwbp_execute, bp_length = hwbp_1\<rparr>
            \<and> debug_control (thread st') = encode_control (slots st')
            \<and> control_enabled (debug_control (thread st')) (nat r)
            \<and> uint (control_length (debug_control (thread st')) (nat r)) = HWBPLength_val hwbp_1
            \<and> HWBPLength_bytes hwbp_1 = 1)
       \<and> (r = - 1 \<longrightarrow> slots st' = slots st)"
proof (cases "r = - 1")
  case True
  with assms AddHWBP_failed [of addr hwbp_execute len st] show ?thesis
    by simp
next
  case False
  with assms have ok: "fst (AddHWBP addr hwbp_execute len st) \<noteq> - 1"
    by simp
  from AddHWBP_succeeded [OF ok] obtain i
    where i: "context_access (thread st)" "aligned addr len" "free_slot (slots st) = Some i"
    by blast
  note a = AddHWBP_ok [OF i, of hwbp_execute]
  from free_slot_Some [OF i(3)] have i4: "i < 4"
    by simp
  from a(1) assms have r: "r = int i"
    by simp
  from a(2) assms
  have sl: "slots st' i = Some \<lparr>bp_address = addr, bp_type = hwbp_execute, bp_length = hwbp_1\<rparr>"
    by simp
  from a(4) assms have dc: "debug_control (thread st') = encode_control (slots st')"
    by simp
  have en: "control_enabled (debug_control (thread st')) i"
    unfolding dc using sl by (simp add: control_enabled_encode [OF i4])
  have le: "uint (control_length (debug_control (thread st')) i) = HWBPLength_val hwbp_1"
    unfolding dc using sl by (simp add: control_length_encode [OF i4])
  from False r i4 sl dc en le show ?thesis
    by simp
qed

theorem execute_breakpoint_has_length_1_witness:
  "AddHWBP 0x2000 hwbp_execute hwbp_8 after_1 = (1, after_2)
   \<and> slots after_2 1 = Some \<lparr>bp_address = 0x2000, bp_type = hwbp_execute, bp_length = hwbp_1\<rparr>
   \<and> uint (control_length (debug_control (thread after_2)) 1) = 0"
  using execute_breakpoint_has_length_1 [OF after_2_eval(1)] after_2_eval(1)
  by auto

text \<open>
  Claim C8. When no occupied slot stores an address equal to \<^verbatim>\<open>ptr\<close>,
  \<^verbatim>\<open>RemoveHWBP(ptr)\<close> returns false and leaves the state, and with it the occupancy,
  address, type and length of all four slots, unchanged.
\<close>

theorem RemoveHWBP_ptr_no_match:
  assumes "\<forall>i<4. \<forall>b. slots st i = Some b \<longrightarrow> bp_address b \<noteq> ptr"
  shows "RemoveHWBP_ptr ptr st = (False, st)"
proof -
  have "\<not> slot_holds (slots st) ptr i" if "i < 4" for i
    using assms that by (auto simp: slot_holds_def split: option.splits)
  then have "List.find (slot_holds (slots st) ptr) [0, 1, 2, 3] = None"
    by simp
  then show ?thesis
    by (simp add: RemoveHWBP_ptr_def)
qed

theorem RemoveHWBP_ptr_no_match_witness:
  "slots one_breakpoint 0 = Some \<lparr>bp_address = 0x1000, bp_type = hwbp_write, bp_length = hwbp_4\<rparr>
   \<and> RemoveHWBP_ptr 0x5000 one_breakpoint = (False, one_breakpoint)"
proof -
  have h: "\<forall>i<4. \<forall>b. slots one_breakpoint i = Some b \<longrightarrow> bp_address b \<noteq> 0x5000"
    by (auto simp add: one_breakpoint_def)
  from RemoveHWBP_ptr_no_match [OF h] show ?thesis
    by (simp add: one_breakpoint_def)
qed

end
